theory Spec2Isabelle
  imports Main
begin

section \<open>Documents as trees\<close>

text \<open>
  Both artifacts of the repository are structured documents: the tutorial notebook
  (\<^verbatim>\<open>tutorials/Intro-to-JAX.ipynb\<close>) is a JSON document, the hygiene configuration
  (\<^verbatim>\<open>.pre-commit-config.yaml\<close>) a YAML document with the same data model.  A document
  is a tree of scalars, arrays and objects; an object keeps its members in file order, as an
  association list.  Strings are byte strings (UTF-8), so the one non-ASCII character of the
  notebook, the apostrophe U+2019 in cell 23, is three bytes.
\<close>

datatype json =
    JNull
  | JBool bool
  | JNum int
  | JStr string
  | JArr "json list"
  | JObj "(string \<times> json) list"

text \<open>Member lookup; anything that is not an object has no members.\<close>

fun field :: "string \<Rightarrow> json \<Rightarrow> json option" where
  "field k (JObj kvs) = map_of kvs k"
| "field k _ = None"

fun is_str :: "json option \<Rightarrow> bool" where
  "is_str (Some (JStr s)) = True"
| "is_str _ = False"

fun is_number :: "json option \<Rightarrow> bool" where
  "is_number (Some (JNum n)) = True"
| "is_number _ = False"

fun is_arr :: "json option \<Rightarrow> bool" where
  "is_arr (Some (JArr xs)) = True"
| "is_arr _ = False"

fun is_obj :: "json option \<Rightarrow> bool" where
  "is_obj (Some (JObj kvs)) = True"
| "is_obj _ = False"

fun is_str_list :: "json option \<Rightarrow> bool" where
  "is_str_list (Some (JArr xs)) = list_all (\<lambda>x. is_str (Some x)) xs"
| "is_str_list _ = False"

fun elems :: "json option \<Rightarrow> json list" where
  "elems (Some (JArr xs)) = xs"
| "elems _ = []"

fun str_of :: "json \<Rightarrow> string" where
  "str_of (JStr s) = s"
| "str_of _ = []"

section \<open>The tutorial notebook\<close>

text \<open>
  The notebook, cell by cell, as it is stored in the repository.  Each source line keeps its
  trailing line feed, as in the file.
\<close>

definition source_0 :: "string list" where
  "source_0 = [
    ''# Intro to JAX\<newline>'',
    ''\<newline>'',
    ''[Live notebook on Colab](https://colab.research.google.com/github/JAXtronomy/tutorials/blob/main/tutorials/Intro-to-JAX.ipynb)\<newline>'',
    ''\<newline>'',
    ''[Here is the slide deck](https://docs.google.com/presentation/d/1RcC0SFoXChmrJ6bhdFXgMrc4M6bCIGgWRdwkHFNBaiU/edit?usp=sharing)'']"

definition cell_0 :: json where
  "cell_0 = JObj [
    (''cell_type'', JStr ''markdown''),
    (''id'', JStr ''0''),
    (''metadata'', JObj []),
    (''source'', JArr (map JStr source_0))]"

definition source_1 :: "string list" where
  "source_1 = [
    ''import jax\<newline>'',
    ''import jax.numpy as jnp\<newline>'',
    ''import matplotlib.pyplot as plt\<newline>'',
    ''import numpy as np\<newline>'',
    ''\<newline>'',
    ''%xmode minimal'']"

definition cell_1 :: json where
  "cell_1 = JObj [
    (''cell_type'', JStr ''code''),
    (''execution_count'', JNull),
    (''id'', JStr ''1''),
    (''metadata'', JObj []),
    (''outputs'', JArr []),
    (''source'', JArr (map JStr source_1))]"

definition source_2 :: "string list" where
  "source_2 = [
    ''## JIT Compilation\<newline>'',
    ''\<newline>'',
    ''Just-in-Time (JIT) compilation enables getting low-level language performance from Python code, on the fly. This can dramatically speed up some numerical computations, especially where loops are required or where the code is not easily vectorized. \<newline>'',
    ''\<newline>'',
    ''### Example: Computing the gravitational potential of a set of particles'']"

definition cell_2 :: json where
  "cell_2 = JObj [
    (''cell_type'', JStr ''markdown''),
    (''id'', JStr ''2''),
    (''metadata'', JObj []),
    (''source'', JArr (map JStr source_2))]"

definition source_3 :: "string list" where
  "source_3 = [
    ''def func(x, a):\<newline>'',
    ''    return jnp.log(jnp.sum(x**2, axis=1) + a**2)'']"

definition cell_3 :: json where
  "cell_3 = JObj [
    (''cell_type'', JStr ''code''),
    (''execution_count'', JNull),
    (''id'', JStr ''3''),
    (''metadata'', JObj []),
    (''outputs'', JArr []),
    (''source'', JArr (map JStr source_3))]"

definition source_4 :: "string list" where
  "source_4 = [
    ''x = np.random.normal(size=(1_000_000, 3))'']"

definition cell_4 :: json where
  "cell_4 = JObj [
    (''cell_type'', JStr ''code''),
    (''execution_count'', JNull),
    (''id'', JStr ''4''),
    (''metadata'', JObj []),
    (''outputs'', JArr []),
    (''source'', JArr (map JStr source_4))]"

definition source_5 :: "string list" where
  "source_5 = [
    ''# without JIT:\<newline>'',
    ''%timeit func(x, 1.0).block_until_ready()'']"

definition cell_5 :: json where
  "cell_5 = JObj [
    (''cell_type'', JStr ''code''),
    (''execution_count'', JNull),
    (''id'', JStr ''5''),
    (''metadata'', JObj []),
    (''outputs'', JArr []),
    (''source'', JArr (map JStr source_5))]"

definition source_6 :: "string list" where
  "source_6 = [
    ''func_jit = jax.jit(func)\<newline>'',
    ''\<newline>'',
    ''# this first call compiles the function\<newline>'',
    ''func_jit(x, 1.0).block_until_ready()\<newline>'',
    ''\<newline>'',
    ''# with JIT:\<newline>'',
    ''%timeit func_jit(x, 1.0).block_until_ready()'']"

definition cell_6 :: json where
  "cell_6 = JObj [
    (''cell_type'', JStr ''code''),
    (''execution_count'', JNull),
    (''id'', JStr ''6''),
    (''metadata'', JObj []),
    (''outputs'', JArr []),
    (''source'', JArr (map JStr source_6))]"

definition source_7 :: "string list" where
  "source_7 = [
    ''This example is a little contrived since the non-JITted version is already vectorized, but it serves to illustrate the JIT compilation process. JIT is most useful when you need to run a function call many times either in a loop or some other iterative process. For example, optimization, MCMC sampling, orbit integration, etc.\<newline>'',
    ''\<newline>'',
    ''BTW: Other packages like Numba and PyTorch also have JIT compilation, but JAX's JIT pairs with XLA to produce highly optimized and hardware-specific machine code.'']"

definition cell_7 :: json where
  "cell_7 = JObj [
    (''cell_type'', JStr ''markdown''),
    (''id'', JStr ''7''),
    (''metadata'', JObj []),
    (''source'', JArr (map JStr source_7))]"

definition source_8 :: "string list" where
  "source_8 = [
    ''A brief aside about `.block_until_ready()`: JAX uses lazy evaluation, so it doesn't actually run the code until you need the values. This is great for performance, because JAX will build up a graph of function calls, compile it and send it to XLA for further optimization. But it can be confusing when debugging -- if you don't do this, it can seem like your code is running absurdly fast. `.block_until_ready()` forces JAX to run the code and wait for it to finish before continuing. Compare these:'']"

definition cell_8 :: json where
  "cell_8 = JObj [
    (''cell_type'', JStr ''markdown''),
    (''id'', JStr ''8''),
    (''metadata'', JObj []),
    (''source'', JArr (map JStr source_8))]"

definition source_9 :: "string list" where
  "source_9 = [
    ''---\<newline>'',
    ''\<newline>'',
    ''## Vectorization with `vmap`\<newline>'',
    ''\<newline>'',
    ''If your function can be expressed using standard `numpy` operations, writing JAX code with `jax.numpy` to accept arrays as inputs will automatically vectorize the function. However, we often write functions that are not easily vectorized - for example, functions that contain conditional statements or loops. In these cases, `jax.vmap` provides an efficient way to apply a function across batches of inputs, often avoiding explicit (external) loops.\<newline>'',
    ''\<newline>'',
    ''For example, imagine you have a bunch of stellar spectra for a set of stars, and you want to compute the depth of some absorption line that appears at a different location (in pixels) for each star because of doppler shifts. You could write a function that computes the depth of the line for a single spectrum, and then use `jax.vmap` to apply it to all the stars in your dataset. \<newline>'',
    ''\<newline>'',
    ''### Example: Find the depth of an absorption line in a set of spectra\<newline>'',
    ''\<newline>'',
    ''First we simulate some \"spectra\":'']"

definition cell_9 :: json where
  "cell_9 = JObj [
    (''cell_type'', JStr ''markdown''),
    (''id'', JStr ''9''),
    (''metadata'', JObj []),
    (''source'', JArr (map JStr source_9))]"

definition source_10 :: "string list" where
  "source_10 = [
    ''N = 128  # number of spectra to make\<newline>'',
    ''\<newline>'',
    ''rng = np.random.default_rng(123)\<newline>'',
    ''pix = jnp.arange(100)\<newline>'',
    ''\<newline>'',
    ''true_ctr = rng.uniform(40, 60, size=(N,))\<newline>'',
    ''true_depth = rng.uniform(0.1, 0.5, size=(N,))\<newline>'',
    ''\<newline>'',
    ''\<newline>'',
    ''def make_spectrum(pix, ctr, depth, scale):\<newline>'',
    ''    return 1 - depth * jnp.exp(-0.5 * (pix - ctr) ** 2 / scale**2)\<newline>'',
    ''\<newline>'',
    ''\<newline>'',
    ''# we'll use vmap to simulate the spectra too ^_^\<newline>'',
    ''spectra = jax.vmap(\<newline>'',
    ''    make_spectrum,\<newline>'',
    ''    in_axes=(None, 0, 0, None),\<newline>'',
    ''    out_axes=0,\<newline>'',
    '')(pix, true_ctr, true_depth, 10.0).block_until_ready()'']"

definition cell_10 :: json where
  "cell_10 = JObj [
    (''cell_type'', JStr ''code''),
    (''execution_count'', JNull),
    (''id'', JStr ''10''),
    (''metadata'', JObj []),
    (''outputs'', JArr []),
    (''source'', JArr (map JStr source_10))]"

definition source_11 :: "string list" where
  "source_11 = [
    ''plt.figure(figsize=(6, 4))\<newline>'',
    ''_ = plt.plot(spectra.T, \"-\", alpha=0.1, color=\"k\")'']"

definition cell_11 :: json where
  "cell_11 = JObj [
    (''cell_type'', JStr ''code''),
    (''execution_count'', JNull),
    (''id'', JStr ''11''),
    (''metadata'', JObj []),
    (''outputs'', JArr []),
    (''source'', JArr (map JStr source_11))]"

definition source_12 :: "string list" where
  "source_12 = [
    ''Now we have a set of spectra, and we want to find the depth of the absorption line near pixel ~50. We can write a function that computes the depth of the line for a single spectrum, and then use `jax.vmap` to apply it to all the spectra in our dataset:'']"

definition cell_12 :: json where
  "cell_12 = JObj [
    (''cell_type'', JStr ''markdown''),
    (''id'', JStr ''12''),
    (''metadata'', JObj []),
    (''source'', JArr (map JStr source_12))]"

definition source_13 :: "string list" where
  "source_13 = [
    ''def find_depth(spectrum):\<newline>'',
    ''    # find the minimum pixel value:\<newline>'',
    ''    min_pix = jnp.argmin(spectrum)\<newline>'',
    ''\<newline>'',
    ''    # locally fit a parabola to the spectrum to find the inter-pixel minimum\<newline>'',
    ''    y = jax.lax.dynamic_slice(spectrum, (min_pix - 1,), (3,))\<newline>'',
    ''    x = jnp.arange(-1, 2)\<newline>'',
    ''    A = jnp.vander(x, 3, increasing=True)  # creates a matrix with columns [1, x, x**2]\<newline>'',
    ''    coeffs = jnp.linalg.lstsq(A, y, rcond=None)[0]\<newline>'',
    ''\<newline>'',
    ''    return 1 - coeffs[0]\<newline>'',
    ''\<newline>'',
    ''\<newline>'',
    ''find_depth_vmap = jax.vmap(find_depth, in_axes=0)'']"

definition cell_13 :: json where
  "cell_13 = JObj [
    (''cell_type'', JStr ''code''),
    (''execution_count'', JNull),
    (''id'', JStr ''13''),
    (''metadata'', JObj []),
    (''outputs'', JArr []),
    (''source'', JArr (map JStr source_13))]"

definition source_14 :: "string list" where
  "source_14 = [
    ''%%time\<newline>'',
    ''for spectrum in spectra:\<newline>'',
    ''    find_depth(spectrum).block_until_ready()'']"

definition cell_14 :: json where
  "cell_14 = JObj [
    (''cell_type'', JStr ''code''),
    (''execution_count'', JNull),
    (''id'', JStr ''14''),
    (''metadata'', JObj []),
    (''outputs'', JArr []),
    (''source'', JArr (map JStr source_14))]"

definition source_15 :: "string list" where
  "source_15 = [
    ''%%time\<newline>'',
    ''find_depth_vmap(spectra).block_until_ready()'']"

definition cell_15 :: json where
  "cell_15 = JObj [
    (''cell_type'', JStr ''code''),
    (''execution_count'', JNull),
    (''id'', JStr ''15''),
    (''metadata'', JObj []),
    (''outputs'', JArr []),
    (''source'', JArr (map JStr source_15))]"

definition source_16 :: "string list" where
  "source_16 = [
    ''depths = find_depth_vmap(spectra).block_until_ready()\<newline>'',
    ''plt.scatter(depths, true_depth)\<newline>'',
    ''plt.xlabel(\"Measured depth\")\<newline>'',
    ''plt.ylabel(\"True depth\")'']"

definition cell_16 :: json where
  "cell_16 = JObj [
    (''cell_type'', JStr ''code''),
    (''execution_count'', JNull),
    (''id'', JStr ''16''),
    (''metadata'', JObj []),
    (''outputs'', JArr []),
    (''source'', JArr (map JStr source_16))]"

definition source_17 :: "string list" where
  "source_17 = [
    ''---\<newline>'',
    ''\<newline>'',
    ''## Automatic Differentiation\<newline>'',
    ''\<newline>'',
    ''Automatic differentiation (autodiff or autograd) allows you to compute exact gradients of functions. This is generally most useful for simplifying optimization problems (and enabling faster or novel optimization methods).\<newline>'',
    ''\<newline>'',
    ''### Example: Evaluating the gradient of a function'']"

definition cell_17 :: json where
  "cell_17 = JObj [
    (''cell_type'', JStr ''markdown''),
    (''id'', JStr ''17''),
    (''metadata'', JObj []),
    (''source'', JArr (map JStr source_17))]"

definition source_18 :: "string list" where
  "source_18 = [
    ''def some_func(x, A, P):\<newline>'',
    ''    return A * jnp.cos(2 * jnp.pi * x / P)'']"

definition cell_18 :: json where
  "cell_18 = JObj [
    (''cell_type'', JStr ''code''),
    (''execution_count'', JNull),
    (''id'', JStr ''18''),
    (''metadata'', JObj []),
    (''outputs'', JArr []),
    (''source'', JArr (map JStr source_18))]"

definition source_19 :: "string list" where
  "source_19 = [
    ''some_func_grad = jax.grad(some_func, argnums=0)\<newline>'',
    ''\<newline>'',
    ''xgrid = jnp.linspace(0, 10, 4096)\<newline>'',
    ''some_func_grad(xgrid, 1.0, 1.0)'']"

definition cell_19 :: json where
  "cell_19 = JObj [
    (''cell_type'', JStr ''code''),
    (''execution_count'', JNull),
    (''id'', JStr ''19''),
    (''metadata'', JObj []),
    (''outputs'', JArr []),
    (''source'', JArr (map JStr source_19))]"

definition source_20 :: "string list" where
  "source_20 = [
    ''Huh, what happened? Why did this error? `jax.grad` only works on scalar outputs. If we try to pass in an array, the output of `some_func` will be an array. Instead of the above, if we want to compute the gradient for all elements in an array, we can use `jax.vmap` to vectorize the `grad`'ed function:'']"

definition cell_20 :: json where
  "cell_20 = JObj [
    (''cell_type'', JStr ''markdown''),
    (''id'', JStr ''20''),
    (''metadata'', JObj []),
    (''source'', JArr (map JStr source_20))]"

definition source_21 :: "string list" where
  "source_21 = [
    ''some_func_grad_vmap = jax.vmap(jax.grad(some_func, argnums=0), in_axes=(0, None, None))'']"

definition cell_21 :: json where
  "cell_21 = JObj [
    (''cell_type'', JStr ''code''),
    (''execution_count'', JNull),
    (''id'', JStr ''21''),
    (''metadata'', JObj []),
    (''outputs'', JArr []),
    (''source'', JArr (map JStr source_21))]"

definition source_22 :: "string list" where
  "source_22 = [
    ''plt.figure(figsize=(6, 4))\<newline>'',
    ''plt.plot(xgrid, some_func(xgrid, 1.0, 1.0), \"-\", label=\"f(x)\")\<newline>'',
    ''plt.plot(xgrid, some_func_grad_vmap(xgrid, 1.0, 1.0), \"-\", label=\"df/dx\")\<newline>'',
    ''plt.legend(loc=\"lower right\", fontsize=20)'']"

definition cell_22 :: json where
  "cell_22 = JObj [
    (''cell_type'', JStr ''code''),
    (''execution_count'', JNull),
    (''id'', JStr ''22''),
    (''metadata'', JObj []),
    (''outputs'', JArr []),
    (''source'', JArr (map JStr source_22))]"

definition source_23 :: "string list" where
  "source_23 = [
    ''---\<newline>'',
    ''\<newline>'',
    ''## Pytrees\<newline>'',
    ''\<newline>'',
    (''Pytrees are JAX'' @ [CHR 0xE2, CHR 0x80, CHR 0x99] @ ''s structured data containers. Think of these as dictionaries, where the data may be scalar or array valued and could be arranged hierarchically. JAX functions often take Pytrees as input and output, and they are designed to be compatible with JAX's JIT compilation and autodiff features. Pytrees are one of my favorite features of JAX!\<newline>''),
    ''\<newline>'',
    ''### Example: Computing the gradient of a function with respect to a set of parameters\<newline>'']"

definition cell_23 :: json where
  "cell_23 = JObj [
    (''cell_type'', JStr ''markdown''),
    (''id'', JStr ''23''),
    (''metadata'', JObj []),
    (''source'', JArr (map JStr source_23))]"

definition source_24 :: "string list" where
  "source_24 = [
    ''def model(x, a, b):\<newline>'',
    ''    return a * x + b\<newline>'',
    ''\<newline>'',
    ''\<newline>'',
    ''def objective(params, x, y, y_err):\<newline>'',
    ''    model_y = model(x, params[\"a\"], params[\"b\"])\<newline>'',
    ''    return jnp.sum((y - model_y) ** 2 / y_err**2)  # chi2'']"

definition cell_24 :: json where
  "cell_24 = JObj [
    (''cell_type'', JStr ''code''),
    (''execution_count'', JNull),
    (''id'', JStr ''24''),
    (''metadata'', JObj []),
    (''outputs'', JArr []),
    (''source'', JArr (map JStr source_24))]"

definition source_25 :: "string list" where
  "source_25 = [
    ''rng = np.random.default_rng(42)\<newline>'',
    ''x = rng.uniform(0, 10, size=16)\<newline>'',
    ''y = model(x, a=8.67, b=5.309)\<newline>'',
    ''y_err = rng.uniform(0.1, 5.0, size=len(x))\<newline>'',
    ''y += rng.normal(0, y_err, size=len(x))\<newline>'',
    ''\<newline>'',
    ''plt.figure(figsize=(6, 4))\<newline>'',
    ''plt.errorbar(x, y, yerr=y_err, fmt=\"o\", label=\"data\")'']"

definition cell_25 :: json where
  "cell_25 = JObj [
    (''cell_type'', JStr ''code''),
    (''execution_count'', JNull),
    (''id'', JStr ''25''),
    (''metadata'', JObj []),
    (''outputs'', JArr []),
    (''source'', JArr (map JStr source_25))]"

definition source_26 :: "string list" where
  "source_26 = [
    ''objecive_grad = jax.grad(objective, argnums=0)'']"

definition cell_26 :: json where
  "cell_26 = JObj [
    (''cell_type'', JStr ''code''),
    (''execution_count'', JNull),
    (''id'', JStr ''26''),
    (''metadata'', JObj []),
    (''outputs'', JArr []),
    (''source'', JArr (map JStr source_26))]"

definition source_27 :: "string list" where
  "source_27 = [
    ''objecive_grad({\"a\": 1.0, \"b\": 1.0}, x, y, y_err)'']"

definition cell_27 :: json where
  "cell_27 = JObj [
    (''cell_type'', JStr ''code''),
    (''execution_count'', JNull),
    (''id'', JStr ''27''),
    (''metadata'', JObj []),
    (''outputs'', JArr []),
    (''source'', JArr (map JStr source_27))]"

definition source_28 :: "string list" where
  "source_28 = [
    ''### Example: Using `vmap` over a pytree of parameters\<newline>'',
    ''\<newline>'',
    ''You can use `jax.vmap` to efficiently evaluate a function for a batch of pytree keys. Suppose we have arrays of parameter sets and we want to evaluate the function for each set of parameters:'']"

definition cell_28 :: json where
  "cell_28 = JObj [
    (''cell_type'', JStr ''markdown''),
    (''id'', JStr ''28''),
    (''metadata'', JObj []),
    (''source'', JArr (map JStr source_28))]"

definition source_29 :: "string list" where
  "source_29 = [
    ''params_arr = {\<newline>'',
    ''    \"a\": jnp.linspace(0, 10, 5),\<newline>'',
    ''    \"b\": jnp.linspace(-5, 5, 5),\<newline>'',
    ''}\<newline>'',
    ''\<newline>'',
    ''objective_vmap = jax.vmap(objective, in_axes=({\"a\": 0, \"b\": 0}, None, None, None))\<newline>'',
    ''chi2_arr = objective_vmap(params_arr, x, y, y_err).block_until_ready()\<newline>'',
    ''chi2_arr'']"

definition cell_29 :: json where
  "cell_29 = JObj [
    (''cell_type'', JStr ''code''),
    (''execution_count'', JNull),
    (''id'', JStr ''29''),
    (''metadata'', JObj []),
    (''outputs'', JArr []),
    (''source'', JArr (map JStr source_29))]"

definition source_30 :: "string list" where
  "source_30 = [
    ''# Sharp Bits\<newline>'',
    ''\<newline>'',
    ''## Control flow\<newline>'',
    ''\<newline>'',
    ''In general, use `jax.lax.cond` instead of `if` statements, and `jax.lax.scan` instead of `for` loops. This is because JAX uses XLA to compile the code, and XLA needs to know the shape of the data at compile time. '']"

definition cell_30 :: json where
  "cell_30 = JObj [
    (''cell_type'', JStr ''markdown''),
    (''id'', JStr ''30''),
    (''metadata'', JObj []),
    (''source'', JArr (map JStr source_30))]"

definition source_31 :: "string list" where
  "source_31 = [
    ''@jax.jit\<newline>'',
    ''def func_if1(x):\<newline>'',
    ''    if x > 0:\<newline>'',
    ''        return x**3\<newline>'',
    ''    else:\<newline>'',
    ''        return x**2'']"

definition cell_31 :: json where
  "cell_31 = JObj [
    (''cell_type'', JStr ''code''),
    (''execution_count'', JNull),
    (''id'', JStr ''31''),
    (''metadata'', JObj []),
    (''outputs'', JArr []),
    (''source'', JArr (map JStr source_31))]"

definition source_32 :: "string list" where
  "source_32 = [
    ''func_if1(10.0)'']"

definition cell_32 :: json where
  "cell_32 = JObj [
    (''cell_type'', JStr ''code''),
    (''execution_count'', JNull),
    (''id'', JStr ''32''),
    (''metadata'', JObj []),
    (''outputs'', JArr []),
    (''source'', JArr (map JStr source_32))]"

definition source_33 :: "string list" where
  "source_33 = [
    ''@jax.jit\<newline>'',
    ''def func_if2(x):\<newline>'',
    ''    return jax.lax.cond(x > 0, lambda: x**3, lambda: x**2)'']"

definition cell_33 :: json where
  "cell_33 = JObj [
    (''cell_type'', JStr ''code''),
    (''execution_count'', JNull),
    (''id'', JStr ''33''),
    (''metadata'', JObj []),
    (''outputs'', JArr []),
    (''source'', JArr (map JStr source_33))]"

definition source_34 :: "string list" where
  "source_34 = [
    ''func_if2(10.0)'']"

definition cell_34 :: json where
  "cell_34 = JObj [
    (''cell_type'', JStr ''code''),
    (''execution_count'', JNull),
    (''id'', JStr ''34''),
    (''metadata'', JObj []),
    (''outputs'', JArr []),
    (''source'', JArr (map JStr source_34))]"

definition source_35 :: "string list" where
  "source_35 = [
    ''# Teaser: Using physical units in JAX code\<newline>'',
    ''\<newline>'',
    ''`astropy.units` has the `Quantity` object for handling data with associated physical units. However, this is an explicit subclass of `numpy.ndarray`, so JAX does not work natively with Astropy units. Instead, in the meantime, we are building a new package called `unxt` for handling JAX tracers with physical units. This package is still in development, but it is ready for use:'']"

definition cell_35 :: json where
  "cell_35 = JObj [
    (''cell_type'', JStr ''markdown''),
    (''id'', JStr ''35''),
    (''metadata'', JObj []),
    (''source'', JArr (map JStr source_35))]"

definition source_36 :: "string list" where
  "source_36 = [
    ''import unxt as u\<newline>'',
    ''import quaxed'']"

definition cell_36 :: json where
  "cell_36 = JObj [
    (''cell_type'', JStr ''code''),
    (''execution_count'', JNull),
    (''id'', JStr ''36''),
    (''metadata'', JObj []),
    (''outputs'', JArr []),
    (''source'', JArr (map JStr source_36))]"

definition source_37 :: "string list" where
  "source_37 = [
    ''pos = u.Quantity(jnp.arange(10.0), \"kpc\")\<newline>'',
    ''time = u.Quantity(5.3, \"Gyr\")\<newline>'',
    ''\<newline>'',
    ''result = pos / time\<newline>'',
    ''result.unit'']"

definition cell_37 :: json where
  "cell_37 = JObj [
    (''cell_type'', JStr ''code''),
    (''execution_count'', JNull),
    (''id'', JStr ''37''),
    (''metadata'', JObj []),
    (''outputs'', JArr []),
    (''source'', JArr (map JStr source_37))]"

definition source_38 :: "string list" where
  "source_38 = [
    ''def compute_potential(r, GM, a):\<newline>'',
    ''    # Gravitational potential for a Hernquist model:\<newline>'',
    ''    return -GM / (r + a)'']"

definition cell_38 :: json where
  "cell_38 = JObj [
    (''cell_type'', JStr ''code''),
    (''execution_count'', JNull),
    (''id'', JStr ''38''),
    (''metadata'', JObj []),
    (''outputs'', JArr []),
    (''source'', JArr (map JStr source_38))]"

definition source_39 :: "string list" where
  "source_39 = [
    ''dPhi_dr = quaxed.grad(compute_potential)'']"

definition cell_39 :: json where
  "cell_39 = JObj [
    (''cell_type'', JStr ''code''),
    (''execution_count'', JNull),
    (''id'', JStr ''39''),
    (''metadata'', JObj []),
    (''outputs'', JArr []),
    (''source'', JArr (map JStr source_39))]"

definition source_40 :: "string list" where
  "source_40 = [
    ''r = u.Quantity(1.0, \"kpc\")\<newline>'',
    ''GM = u.Quantity(1.0, \"kpc^3 / Gyr^2\")\<newline>'',
    ''a = u.Quantity(1.0, \"kpc\")\<newline>'',
    ''compute_potential(r, GM, a).block_until_ready()'']"

definition cell_40 :: json where
  "cell_40 = JObj [
    (''cell_type'', JStr ''code''),
    (''execution_count'', JNull),
    (''id'', JStr ''40''),
    (''metadata'', JObj []),
    (''outputs'', JArr []),
    (''source'', JArr (map JStr source_40))]"

definition source_41 :: "string list" where
  "source_41 = [
    ''dPhi_dr(r, GM, a).block_until_ready()'']"

definition cell_41 :: json where
  "cell_41 = JObj [
    (''cell_type'', JStr ''code''),
    (''execution_count'', JNull),
    (''id'', JStr ''41''),
    (''metadata'', JObj []),
    (''outputs'', JArr []),
    (''source'', JArr (map JStr source_41))]"

definition source_42 :: "string list" where
  "source_42 = []"

definition cell_42 :: json where
  "cell_42 = JObj [
    (''cell_type'', JStr ''code''),
    (''execution_count'', JNull),
    (''id'', JStr ''42''),
    (''metadata'', JObj []),
    (''outputs'', JArr []),
    (''source'', JArr (map JStr source_42))]"

definition notebook_metadata :: json where
  "notebook_metadata = JObj [
      (''kernelspec'', JObj [
        (''display_name'', JStr ''.venv''),
        (''language'', JStr ''python''),
        (''name'', JStr ''python3'')]),
      (''language_info'', JObj [
        (''codemirror_mode'', JObj [
          (''name'', JStr ''ipython''),
          (''version'', JNum 3)]),
        (''file_extension'', JStr ''.py''),
        (''mimetype'', JStr ''text/x-python''),
        (''name'', JStr ''python''),
        (''nbconvert_exporter'', JStr ''python''),
        (''pygments_lexer'', JStr ''ipython3''),
        (''version'', JStr ''3.12.7'')])]"

definition notebook :: json where
  "notebook = JObj [
    (''cells'', JArr [
     cell_0, cell_1, cell_2, cell_3, cell_4, cell_5, cell_6, cell_7, cell_8, cell_9,
     cell_10, cell_11, cell_12, cell_13, cell_14, cell_15, cell_16, cell_17, cell_18,
     cell_19, cell_20, cell_21, cell_22, cell_23, cell_24, cell_25, cell_26, cell_27,
     cell_28, cell_29, cell_30, cell_31, cell_32, cell_33, cell_34, cell_35, cell_36,
     cell_37, cell_38, cell_39, cell_40, cell_41, cell_42]),
    (''metadata'', notebook_metadata),
    (''nbformat'', JNum 4),
    (''nbformat_minor'', JNum 5)]"


section \<open>Reading the notebook\<close>

definition nb_cells :: "json \<Rightarrow> json list" where
  "nb_cells nb = elems (field ''cells'' nb)"

definition is_code :: "json \<Rightarrow> bool" where
  "is_code c \<longleftrightarrow> field ''cell_type'' c = Some (JStr ''code'')"

definition is_markdown :: "json \<Rightarrow> bool" where
  "is_markdown c \<longleftrightarrow> field ''cell_type'' c = Some (JStr ''markdown'')"

definition code_cells :: "json \<Rightarrow> json list" where
  "code_cells nb = filter is_code (nb_cells nb)"

definition markdown_cells :: "json \<Rightarrow> json list" where
  "markdown_cells nb = filter is_markdown (nb_cells nb)"

definition source_lines :: "json \<Rightarrow> string list" where
  "source_lines c = map str_of (elems (field ''source'' c))"

fun cell_id :: "json \<Rightarrow> string option" where
  "cell_id c = (case field ''id'' c of Some (JStr s) \<Rightarrow> Some s | _ \<Rightarrow> None)"

definition cell_ids :: "json \<Rightarrow> string option list" where
  "cell_ids nb = map cell_id (nb_cells nb)"

text \<open>
  Well-formedness of one cell: a type tag that is markdown or code, a string identifier, a list
  of source lines, and for a code cell the captured outputs (an array) and the execution
  counter (null or a number).
\<close>

fun is_counter :: "json option \<Rightarrow> bool" where
  "is_counter (Some JNull) = True"
| "is_counter (Some (JNum n)) = True"
| "is_counter _ = False"

definition well_formed_cell :: "json \<Rightarrow> bool" where
  "well_formed_cell c \<longleftrightarrow>
     (is_markdown c \<or> is_code c) \<and>
     is_str (field ''id'' c) \<and>
     is_str_list (field ''source'' c) \<and>
     (is_code c \<longrightarrow> is_arr (field ''outputs'' c) \<and> is_counter (field ''execution_count'' c))"

text \<open>Decimal numerals, to speak about the cell identifiers.\<close>

definition digit_char :: "nat \<Rightarrow> char" where
  "digit_char d = char_of (48 + d)"

fun dec :: "nat \<Rightarrow> string" where
  "dec n = (if n < 10 then [digit_char n] else dec (n div 10) @ [digit_char (n mod 10)])"

declare dec.simps [simp del]

definition digit_val :: "char \<Rightarrow> nat option" where
  "digit_val c = (let k = (of_char c :: nat) in if 48 \<le> k \<and> k \<le> 57 then Some (k - 48) else None)"

fun undec_from :: "nat \<Rightarrow> string \<Rightarrow> nat option" where
  "undec_from acc [] = Some acc"
| "undec_from acc (c # cs) =
     (case digit_val c of None \<Rightarrow> None | Some d \<Rightarrow> undec_from (10 * acc + d) cs)"

fun undec :: "string \<Rightarrow> nat option" where
  "undec [] = None"
| "undec s = undec_from 0 s"

definition cell_numbers :: "json \<Rightarrow> nat option list" where
  "cell_numbers nb = map (\<lambda>i. case i of None \<Rightarrow> None | Some s \<Rightarrow> undec s) (cell_ids nb)"

section \<open>Reading the text of the cells\<close>

fun starts_with :: "string \<Rightarrow> string \<Rightarrow> bool" where
  "starts_with [] s = True"
| "starts_with (p # ps) [] = False"
| "starts_with (p # ps) (c # cs) = (p = c \<and> starts_with ps cs)"

fun contains :: "string \<Rightarrow> string \<Rightarrow> bool" where
  "contains p [] = (p = [])"
| "contains p (c # cs) = (starts_with p (c # cs) \<or> contains p cs)"

text \<open>
  Markdown headings (ATX style): one to six number signs, then a space, then the title up to
  the end of the line.
\<close>

fun hashes :: "string \<Rightarrow> nat" where
  "hashes [] = 0"
| "hashes (c # cs) = (if c = CHR ''#'' then Suc (hashes cs) else 0)"

definition heading_of :: "string \<Rightarrow> (nat \<times> string) option" where
  "heading_of l =
     (let n = hashes l in
      if 1 \<le> n \<and> n \<le> 6 \<and> starts_with '' '' (drop n l)
      then Some (n, takeWhile (\<lambda>c. c \<noteq> CHR ''\<newline>'') (drop (Suc n) l))
      else None)"

definition headings :: "json \<Rightarrow> (nat \<times> string) list" where
  "headings nb = concat (map (\<lambda>c. List.map_filter heading_of (source_lines c)) (markdown_cells nb))"

text \<open>The six topics of the tutorial, by the headings that open them.\<close>

definition topic_headings :: "(nat \<times> string) list" where
  "topic_headings =
    [(2, ''JIT Compilation''),
     (2, ''Vectorization with `vmap`''),
     (2, ''Automatic Differentiation''),
     (2, ''Pytrees''),
     (2, ''Control flow''),
     (1, ''Teaser: Using physical units in JAX code'')]"




section \<open>The hygiene configuration\<close>

text \<open>
  The pre-commit configuration, entry by entry, as it is stored in the repository.  The
  revision \<^verbatim>\<open>rev\<close> is a member of a repository entry; the hook declarations are the
  elements of its \<^verbatim>\<open>hooks\<close> list.
\<close>

definition repo_pre_commit_hooks :: json where
  "repo_pre_commit_hooks = JObj [
    (''repo'', JStr ''https://github.com/pre-commit/pre-commit-hooks''),
    (''rev'', JStr ''v5.0.0''),
    (''hooks'', JArr [
      JObj [(''id'', JStr ''check-added-large-files'')],
      JObj [(''id'', JStr ''check-case-conflict'')],
      JObj [(''id'', JStr ''check-merge-conflict'')],
      JObj [(''id'', JStr ''check-symlinks'')],
      JObj [(''id'', JStr ''check-yaml'')],
      JObj [(''id'', JStr ''end-of-file-fixer'')],
      JObj [(''id'', JStr ''mixed-line-ending'')],
      JObj [(''id'', JStr ''name-tests-test''),
            (''args'', JArr [JStr ''--pytest-test-first''])],
      JObj [(''id'', JStr ''requirements-txt-fixer'')],
      JObj [(''id'', JStr ''trailing-whitespace'')]])]"

definition hook_prettier :: json where
  "hook_prettier = JObj [
    (''id'', JStr ''prettier''),
    (''types_or'', JArr [JStr ''yaml'', JStr ''markdown'', JStr ''html'', JStr ''css'',
                         JStr ''scss'', JStr ''javascript'', JStr ''json'']),
    (''args'', JArr [JStr ''--prose-wrap=always''])]"

definition repo_prettier :: json where
  "repo_prettier = JObj [
    (''repo'', JStr ''https://github.com/rbubley/mirrors-prettier''),
    (''rev'', JStr ''v3.4.2''),
    (''hooks'', JArr [hook_prettier])]"

definition repo_ruff :: json where
  "repo_ruff = JObj [
    (''repo'', JStr ''https://github.com/astral-sh/ruff-pre-commit''),
    (''rev'', JStr ''v0.9.5''),
    (''hooks'', JArr [
      JObj [(''id'', JStr ''ruff''),
            (''args'', JArr [JStr ''--fix'', JStr ''--show-fixes'']),
            (''types_or'', JArr [JStr ''python'', JStr ''jupyter''])],
      JObj [(''id'', JStr ''ruff-format''),
            (''types_or'', JArr [JStr ''python'', JStr ''jupyter''])]])]"

definition hook_shellcheck :: json where
  "hook_shellcheck = JObj [(''id'', JStr ''shellcheck'')]"

definition repo_shellcheck :: json where
  "repo_shellcheck = JObj [
    (''repo'', JStr ''https://github.com/shellcheck-py/shellcheck-py''),
    (''rev'', JStr ''v0.10.0.1''),
    (''hooks'', JArr [hook_shellcheck])]"

definition repo_validate_pyproject :: json where
  "repo_validate_pyproject = JObj [
    (''repo'', JStr ''https://github.com/abravalheri/validate-pyproject''),
    (''rev'', JStr ''v0.23''),
    (''hooks'', JArr [
      JObj [(''id'', JStr ''validate-pyproject''),
            (''additional_dependencies'', JArr [JStr ''validate-pyproject-schema-store[all]''])]])]"

definition repo_nbstripout :: json where
  "repo_nbstripout = JObj [
    (''repo'', JStr ''https://github.com/kynan/nbstripout''),
    (''rev'', JStr ''0.8.1''),
    (''hooks'', JArr [JObj [(''id'', JStr ''nbstripout'')]])]"

definition config :: json where
  "config = JObj [
    (''ci'', JObj [
      (''autoupdate_commit_msg'', JStr ''chore: update pre-commit hooks''),
      (''autofix_commit_msg'', JStr ''style: pre-commit fixes'')]),
    (''exclude'', JStr ''^.cruft.json|.copier-answers.yml$''),
    (''repos'', JArr [repo_pre_commit_hooks, repo_prettier, repo_ruff, repo_shellcheck,
                      repo_validate_pyproject, repo_nbstripout])]"

text \<open>
  A hook declaration is read together with the repository entry it stands in.  The keys by
  which a hook declaration restricts the files it applies to are \<^verbatim>\<open>files\<close>,
  \<^verbatim>\<open>exclude\<close>, \<^verbatim>\<open>types\<close>, \<^verbatim>\<open>types_or\<close> and \<^verbatim>\<open>exclude_types\<close>.
\<close>

definition repos :: "json \<Rightarrow> json list" where
  "repos cfg = elems (field ''repos'' cfg)"

definition hook_decls :: "json \<Rightarrow> (json \<times> json) list" where
  "hook_decls cfg = concat (map (\<lambda>r. map (\<lambda>h. (r, h)) (elems (field ''hooks'' r))) (repos cfg))"

definition filter_keys :: "string list" where
  "filter_keys = [''files'', ''exclude'', ''types'', ''types_or'', ''exclude_types'']"

definition has_filter :: "json \<Rightarrow> bool" where
  "has_filter h \<longleftrightarrow> list_ex (\<lambda>k. field k h \<noteq> None) filter_keys"

definition names_revision :: "json \<Rightarrow> bool" where
  "names_revision x \<longleftrightarrow> is_str (field ''rev'' x)"

definition hook_id :: "json \<Rightarrow> string" where
  "hook_id h = (case field ''id'' h of Some (JStr s) \<Rightarrow> s | _ \<Rightarrow> [])"

definition filtered_hook_ids :: "string list" where
  "filtered_hook_ids = [''prettier'', ''ruff'', ''ruff-format'']"

section \<open>The exclude pattern\<close>

text \<open>
  The top-level \<^verbatim>\<open>exclude\<close> value is a Python regular expression which the commit-time
  runner applies to each path with search semantics (a match may begin at any position).
  The pattern language needed here has literal characters, the dot, the two anchors and
  alternation.  Alternation binds weakest: the pattern is cut at every bar and each piece is a
  sequence of atoms.  Any other metacharacter is outside the fragment and makes the parse fail.

  Paths are Python strings, that is, sequences of code points, and are modelled as lists of
  natural numbers; the line feed is code point 10.  In Python's default mode the dot matches
  every character except the line feed, the caret matches at the start of the string, and the
  dollar matches at the end of the string and just before a line feed that ends the string.
  A configuration without the key has the runner's default pattern, which matches the empty
  path only.
\<close>

datatype atom = Bol | Eol | Dot | Lit char

definition unsupported_chars :: string where
  "unsupported_chars = CHR 0x5C # ''*+?()[]{}|''"

definition atom_of :: "char \<Rightarrow> atom option" where
  "atom_of c =
     (if c = CHR ''^'' then Some Bol
      else if c = CHR ''$'' then Some Eol
      else if c = CHR ''.'' then Some Dot
      else if c \<in> set unsupported_chars then None
      else Some (Lit c))"

fun split_on :: "char \<Rightarrow> string \<Rightarrow> string list" where
  "split_on d [] = [] # []"
| "split_on d (c # cs) =
     (if c = d then [] # split_on d cs
      else (case split_on d cs of [] \<Rightarrow> [c] # [] | w # ws \<Rightarrow> (c # w) # ws))"

definition parse_regex :: "string \<Rightarrow> atom list list option" where
  "parse_regex p = those (map (\<lambda>alt. those (map atom_of alt)) (split_on (CHR ''|'') p))"

type_synonym path = "nat list"

definition cps :: "string \<Rightarrow> path" where
  "cps s = map of_char s"

fun match_here :: "atom list \<Rightarrow> bool \<Rightarrow> path \<Rightarrow> bool" where
  "match_here [] at_start s = True"
| "match_here (Bol # as) at_start s = (at_start \<and> match_here as at_start s)"
| "match_here (Eol # as) at_start s = ((s = [] \<or> s = [10]) \<and> match_here as at_start s)"
| "match_here (Dot # as) at_start [] = False"
| "match_here (Dot # as) at_start (c # cs) = (c \<noteq> 10 \<and> match_here as False cs)"
| "match_here (Lit l # as) at_start [] = False"
| "match_here (Lit l # as) at_start (c # cs) = (c = of_char l \<and> match_here as False cs)"

fun search_from :: "atom list list \<Rightarrow> bool \<Rightarrow> path \<Rightarrow> bool" where
  "search_from alts at_start [] = list_ex (\<lambda>a. match_here a at_start []) alts"
| "search_from alts at_start (c # cs) =
     (list_ex (\<lambda>a. match_here a at_start (c # cs)) alts \<or> search_from alts False cs)"

definition re_search :: "string \<Rightarrow> path \<Rightarrow> bool" where
  "re_search pat s = (case parse_regex pat of None \<Rightarrow> False | Some alts \<Rightarrow> search_from alts True s)"

definition exclude_pattern :: "json \<Rightarrow> string" where
  "exclude_pattern cfg = (case field ''exclude'' cfg of Some (JStr p) \<Rightarrow> p | _ \<Rightarrow> ''^$'')"

definition excluded :: "json \<Rightarrow> path \<Rightarrow> bool" where
  "excluded cfg p = re_search (exclude_pattern cfg) p"

definition cruft_alternative :: "atom list" where
  "cruft_alternative = Bol # Dot # map Lit ''cruft'' @ Dot # map Lit ''json''"

definition copier_alternative :: "atom list" where
  "copier_alternative = Dot # map Lit ''copier-answers'' @ Dot # map Lit ''yml'' @ [Eol]"

section \<open>The code of the cells\<close>

text \<open>
  The Python code of the code cells, as abstract syntax.  Comments are dropped, numeric
  literals and the constants \<^verbatim>\<open>None\<close> and \<^verbatim>\<open>True\<close> keep their source text.  A line that
  starts with a percent sign is an IPython line magic, a cell whose first line starts with two
  is a cell magic; either carries the Python statements it runs.
\<close>

datatype expr =
    Name string
  | Constant string
  | Str string
  | Attribute expr string
  | Call expr "expr list" "(string \<times> expr) list"
  | BinOp expr string expr
  | UnaryOp string expr
  | Compare expr string expr
  | Subscript expr expr
  | Tuple "expr list"
  | Dict "(expr \<times> expr) list"
  | Lambda "string list" expr

datatype stmt =
    Import string "string option"
  | Assign expr expr
  | AugAssign expr string expr
  | Expr expr
  | Return expr
  | If_stmt expr "stmt list" "stmt list"
  | For expr expr "stmt list"
  | FunctionDef string "expr list" "string list" "stmt list"
  | LineMagic string string "stmt list"
  | CellMagic string string "stmt list"

definition code_1 :: "stmt list" where
  "code_1 = [
     Import ''jax'' None,
     Import ''jax.numpy'' (Some ''jnp''),
     Import ''matplotlib.pyplot'' (Some ''plt''),
     Import ''numpy'' (Some ''np''),
     LineMagic ''xmode'' ''minimal'' []]"

definition code_3 :: "stmt list" where
  "code_3 = [
     FunctionDef ''func'' [] [''x'', ''a'']
       [Return (Call (Attribute (Name ''jnp'') ''log'') [BinOp (Call (Attribute
           (Name ''jnp'') ''sum'') [BinOp (Name ''x'') ''**'' (Constant ''2'')] [(''axis'',
           Constant ''1'')]) ''+'' (BinOp (Name ''a'') ''**'' (Constant ''2''))] [])]]"

definition code_4 :: "stmt list" where
  "code_4 = [
     Assign (Name ''x'')
       (Call (Attribute (Attribute (Name ''np'') ''random'') ''normal'') [] [(''size'',
           Tuple [Constant ''1_000_000'', Constant ''3''])])]"

definition code_5 :: "stmt list" where
  "code_5 = [
     LineMagic ''timeit'' ''''
       [Expr (Call (Attribute (Call (Name ''func'') [Name ''x'',
           Constant ''1.0''] []) ''block_until_ready'') [] [])]]"

definition code_6 :: "stmt list" where
  "code_6 = [
     Assign (Name ''func_jit'')
       (Call (Attribute (Name ''jax'') ''jit'') [Name ''func''] []),
     Expr (Call (Attribute (Call (Name ''func_jit'') [Name ''x'',
         Constant ''1.0''] []) ''block_until_ready'') [] []),
     LineMagic ''timeit'' ''''
       [Expr (Call (Attribute (Call (Name ''func_jit'') [Name ''x'',
           Constant ''1.0''] []) ''block_until_ready'') [] [])]]"

definition code_10 :: "stmt list" where
  "code_10 = [
     Assign (Name ''N'')
       (Constant ''128''),
     Assign (Name ''rng'')
       (Call (Attribute (Attribute (Name ''np'') ''random'') ''default_rng'') [Constant ''123'']
           []),
     Assign (Name ''pix'')
       (Call (Attribute (Name ''jnp'') ''arange'') [Constant ''100''] []),
     Assign (Name ''true_ctr'')
       (Call (Attribute (Name ''rng'') ''uniform'') [Constant ''40'',
           Constant ''60''] [(''size'', Tuple [Name ''N''])]),
     Assign (Name ''true_depth'')
       (Call (Attribute (Name ''rng'') ''uniform'') [Constant ''0.1'',
           Constant ''0.5''] [(''size'', Tuple [Name ''N''])]),
     FunctionDef ''make_spectrum'' [] [''pix'', ''ctr'', ''depth'', ''scale'']
       [Return (BinOp (Constant ''1'') ''-'' (BinOp (Name ''depth'') ''*'' (Call (Attribute
           (Name ''jnp'') ''exp'') [BinOp (BinOp (UnaryOp ''-'' (Constant ''0.5'')) ''*'' (BinOp
           (BinOp (Name ''pix'') ''-'' (Name ''ctr'')) ''**'' (Constant ''2''))) ''/'' (BinOp
           (Name ''scale'') ''**'' (Constant ''2''))] [])))],
     Assign (Name ''spectra'')
       (Call (Attribute (Call (Call (Attribute (Name ''jax'') ''vmap'') [Name ''make_spectrum'']
           [(''in_axes'', Tuple [Constant ''None'', Constant ''0'', Constant ''0'',
           Constant ''None'']), (''out_axes'', Constant ''0'')]) [Name ''pix'',
           Name ''true_ctr'', Name ''true_depth'',
           Constant ''10.0''] []) ''block_until_ready'') [] [])]"

definition code_11 :: "stmt list" where
  "code_11 = [
     Expr (Call (Attribute (Name ''plt'') ''figure'') [] [(''figsize'', Tuple [Constant ''6'',
         Constant ''4''])]),
     Assign (Name ''_'')
       (Call (Attribute (Name ''plt'') ''plot'') [Attribute (Name ''spectra'') ''T'',
           Str ''-''] [(''alpha'', Constant ''0.1''), (''color'', Str ''k'')])]"

definition code_13 :: "stmt list" where
  "code_13 = [
     FunctionDef ''find_depth'' [] [''spectrum'']
       [Assign (Name ''min_pix'')
          (Call (Attribute (Name ''jnp'') ''argmin'') [Name ''spectrum''] []),
        Assign (Name ''y'')
          (Call (Attribute (Attribute (Name ''jax'') ''lax'') ''dynamic_slice'')
              [Name ''spectrum'', Tuple [BinOp (Name ''min_pix'') ''-'' (Constant ''1'')],
              Tuple [Constant ''3'']] []),
        Assign (Name ''x'')
          (Call (Attribute (Name ''jnp'') ''arange'') [UnaryOp ''-'' (Constant ''1''),
              Constant ''2''] []),
        Assign (Name ''A'')
          (Call (Attribute (Name ''jnp'') ''vander'') [Name ''x'',
              Constant ''3''] [(''increasing'', Constant ''True'')]),
        Assign (Name ''coeffs'')
          (Subscript (Call (Attribute (Attribute (Name ''jnp'') ''linalg'') ''lstsq'')
              [Name ''A'', Name ''y''] [(''rcond'', Constant ''None'')]) (Constant ''0'')),
        Return (BinOp (Constant ''1'') ''-'' (Subscript (Name ''coeffs'') (Constant ''0'')))],
     Assign (Name ''find_depth_vmap'')
       (Call (Attribute (Name ''jax'') ''vmap'') [Name ''find_depth''] [(''in_axes'',
           Constant ''0'')])]"

definition code_14 :: "stmt list" where
  "code_14 = [
     CellMagic ''time'' ''''
       [For (Name ''spectrum'') (Name ''spectra'')
          [Expr (Call (Attribute (Call (Name ''find_depth'') [Name ''spectrum'']
              []) ''block_until_ready'') [] [])]]]"

definition code_15 :: "stmt list" where
  "code_15 = [
     CellMagic ''time'' ''''
       [Expr (Call (Attribute (Call (Name ''find_depth_vmap'') [Name ''spectra'']
           []) ''block_until_ready'') [] [])]]"

definition code_16 :: "stmt list" where
  "code_16 = [
     Assign (Name ''depths'')
       (Call (Attribute (Call (Name ''find_depth_vmap'') [Name ''spectra'']
           []) ''block_until_ready'') [] []),
     Expr (Call (Attribute (Name ''plt'') ''scatter'') [Name ''depths'',
         Name ''true_depth''] []),
     Expr (Call (Attribute (Name ''plt'') ''xlabel'') [Str ''Measured depth''] []),
     Expr (Call (Attribute (Name ''plt'') ''ylabel'') [Str ''True depth''] [])]"

definition code_18 :: "stmt list" where
  "code_18 = [
     FunctionDef ''some_func'' [] [''x'', ''A'', ''P'']
       [Return (BinOp (Name ''A'') ''*'' (Call (Attribute (Name ''jnp'') ''cos'') [BinOp (BinOp
           (BinOp (Constant ''2'') ''*'' (Attribute (Name ''jnp'') ''pi'')) ''*''
           (Name ''x'')) ''/'' (Name ''P'')] []))]]"

definition code_19 :: "stmt list" where
  "code_19 = [
     Assign (Name ''some_func_grad'')
       (Call (Attribute (Name ''jax'') ''grad'') [Name ''some_func''] [(''argnums'',
           Constant ''0'')]),
     Assign (Name ''xgrid'')
       (Call (Attribute (Name ''jnp'') ''linspace'') [Constant ''0'', Constant ''10'',
           Constant ''4096''] []),
     Expr (Call (Name ''some_func_grad'') [Name ''xgrid'', Constant ''1.0'',
         Constant ''1.0''] [])]"

definition code_21 :: "stmt list" where
  "code_21 = [
     Assign (Name ''some_func_grad_vmap'')
       (Call (Attribute (Name ''jax'') ''vmap'') [Call (Attribute (Name ''jax'') ''grad'')
           [Name ''some_func''] [(''argnums'', Constant ''0'')]] [(''in_axes'',
           Tuple [Constant ''0'', Constant ''None'', Constant ''None''])])]"

definition code_22 :: "stmt list" where
  "code_22 = [
     Expr (Call (Attribute (Name ''plt'') ''figure'') [] [(''figsize'', Tuple [Constant ''6'',
         Constant ''4''])]),
     Expr (Call (Attribute (Name ''plt'') ''plot'') [Name ''xgrid'',
         Call (Name ''some_func'') [Name ''xgrid'', Constant ''1.0'', Constant ''1.0''] [],
         Str ''-''] [(''label'', Str ''f(x)'')]),
     Expr (Call (Attribute (Name ''plt'') ''plot'') [Name ''xgrid'',
         Call (Name ''some_func_grad_vmap'') [Name ''xgrid'', Constant ''1.0'',
         Constant ''1.0''] [], Str ''-''] [(''label'', Str ''df/dx'')]),
     Expr (Call (Attribute (Name ''plt'') ''legend'') [] [(''loc'', Str ''lower right''),
         (''fontsize'', Constant ''20'')])]"

definition code_24 :: "stmt list" where
  "code_24 = [
     FunctionDef ''model'' [] [''x'', ''a'', ''b'']
       [Return (BinOp (BinOp (Name ''a'') ''*'' (Name ''x'')) ''+'' (Name ''b''))],
     FunctionDef ''objective'' [] [''params'', ''x'', ''y'', ''y_err'']
       [Assign (Name ''model_y'')
          (Call (Name ''model'') [Name ''x'', Subscript (Name ''params'') (Str ''a''),
              Subscript (Name ''params'') (Str ''b'')] []),
        Return (Call (Attribute (Name ''jnp'') ''sum'') [BinOp (BinOp (BinOp (Name ''y'') ''-''
            (Name ''model_y'')) ''**'' (Constant ''2'')) ''/'' (BinOp (Name ''y_err'') ''**''
            (Constant ''2''))] [])]]"

definition code_25 :: "stmt list" where
  "code_25 = [
     Assign (Name ''rng'')
       (Call (Attribute (Attribute (Name ''np'') ''random'') ''default_rng'') [Constant ''42'']
           []),
     Assign (Name ''x'')
       (Call (Attribute (Name ''rng'') ''uniform'') [Constant ''0'',
           Constant ''10''] [(''size'', Constant ''16'')]),
     Assign (Name ''y'')
       (Call (Name ''model'') [Name ''x''] [(''a'', Constant ''8.67''), (''b'',
           Constant ''5.309'')]),
     Assign (Name ''y_err'')
       (Call (Attribute (Name ''rng'') ''uniform'') [Constant ''0.1'',
           Constant ''5.0''] [(''size'', Call (Name ''len'') [Name ''x''] [])]),
     AugAssign (Name ''y'') ''+''
       (Call (Attribute (Name ''rng'') ''normal'') [Constant ''0'', Name ''y_err''] [(''size'',
           Call (Name ''len'') [Name ''x''] [])]),
     Expr (Call (Attribute (Name ''plt'') ''figure'') [] [(''figsize'', Tuple [Constant ''6'',
         Constant ''4''])]),
     Expr (Call (Attribute (Name ''plt'') ''errorbar'') [Name ''x'', Name ''y''] [(''yerr'',
         Name ''y_err''), (''fmt'', Str ''o''), (''label'', Str ''data'')])]"

definition code_26 :: "stmt list" where
  "code_26 = [
     Assign (Name ''objecive_grad'')
       (Call (Attribute (Name ''jax'') ''grad'') [Name ''objective''] [(''argnums'',
           Constant ''0'')])]"

definition code_27 :: "stmt list" where
  "code_27 = [
     Expr (Call (Name ''objecive_grad'') [Dict [(Str ''a'', Constant ''1.0''), (Str ''b'',
         Constant ''1.0'')], Name ''x'', Name ''y'', Name ''y_err''] [])]"

definition code_29 :: "stmt list" where
  "code_29 = [
     Assign (Name ''params_arr'')
       (Dict [(Str ''a'', Call (Attribute (Name ''jnp'') ''linspace'') [Constant ''0'',
           Constant ''10'', Constant ''5''] []), (Str ''b'',
           Call (Attribute (Name ''jnp'') ''linspace'') [UnaryOp ''-'' (Constant ''5''),
           Constant ''5'', Constant ''5''] [])]),
     Assign (Name ''objective_vmap'')
       (Call (Attribute (Name ''jax'') ''vmap'') [Name ''objective''] [(''in_axes'',
           Tuple [Dict [(Str ''a'', Constant ''0''), (Str ''b'', Constant ''0'')],
           Constant ''None'', Constant ''None'', Constant ''None''])]),
     Assign (Name ''chi2_arr'')
       (Call (Attribute (Call (Name ''objective_vmap'') [Name ''params_arr'', Name ''x'',
           Name ''y'', Name ''y_err''] []) ''block_until_ready'') [] []),
     Expr (Name ''chi2_arr'')]"

definition code_31 :: "stmt list" where
  "code_31 = [
     FunctionDef ''func_if1'' [Attribute (Name ''jax'') ''jit''] [''x'']
       [If_stmt (Compare (Name ''x'') ''>'' (Constant ''0''))
          [Return (BinOp (Name ''x'') ''**'' (Constant ''3''))]
          [Return (BinOp (Name ''x'') ''**'' (Constant ''2''))]]]"

definition code_32 :: "stmt list" where
  "code_32 = [
     Expr (Call (Name ''func_if1'') [Constant ''10.0''] [])]"

definition code_33 :: "stmt list" where
  "code_33 = [
     FunctionDef ''func_if2'' [Attribute (Name ''jax'') ''jit''] [''x'']
       [Return (Call (Attribute (Attribute (Name ''jax'') ''lax'') ''cond'') [Compare
           (Name ''x'') ''>'' (Constant ''0''),
           Lambda [] (BinOp (Name ''x'') ''**'' (Constant ''3'')),
           Lambda [] (BinOp (Name ''x'') ''**'' (Constant ''2''))] [])]]"

definition code_34 :: "stmt list" where
  "code_34 = [
     Expr (Call (Name ''func_if2'') [Constant ''10.0''] [])]"

definition code_36 :: "stmt list" where
  "code_36 = [
     Import ''unxt'' (Some ''u''),
     Import ''quaxed'' None]"

definition code_37 :: "stmt list" where
  "code_37 = [
     Assign (Name ''pos'')
       (Call (Attribute (Name ''u'') ''Quantity'') [Call (Attribute (Name ''jnp'') ''arange'')
           [Constant ''10.0''] [], Str ''kpc''] []),
     Assign (Name ''time'')
       (Call (Attribute (Name ''u'') ''Quantity'') [Constant ''5.3'', Str ''Gyr''] []),
     Assign (Name ''result'')
       (BinOp (Name ''pos'') ''/'' (Name ''time'')),
     Expr (Attribute (Name ''result'') ''unit'')]"

definition code_38 :: "stmt list" where
  "code_38 = [
     FunctionDef ''compute_potential'' [] [''r'', ''GM'', ''a'']
       [Return (BinOp (UnaryOp ''-'' (Name ''GM'')) ''/'' (BinOp (Name ''r'') ''+''
           (Name ''a'')))]]"

definition code_39 :: "stmt list" where
  "code_39 = [
     Assign (Name ''dPhi_dr'')
       (Call (Attribute (Name ''quaxed'') ''grad'') [Name ''compute_potential''] [])]"

definition code_40 :: "stmt list" where
  "code_40 = [
     Assign (Name ''r'')
       (Call (Attribute (Name ''u'') ''Quantity'') [Constant ''1.0'', Str ''kpc''] []),
     Assign (Name ''GM'')
       (Call (Attribute (Name ''u'') ''Quantity'') [Constant ''1.0'',
           Str ''kpc^3 / Gyr^2''] []),
     Assign (Name ''a'')
       (Call (Attribute (Name ''u'') ''Quantity'') [Constant ''1.0'', Str ''kpc''] []),
     Expr (Call (Attribute (Call (Name ''compute_potential'') [Name ''r'', Name ''GM'',
         Name ''a''] []) ''block_until_ready'') [] [])]"

definition code_41 :: "stmt list" where
  "code_41 = [
     Expr (Call (Attribute (Call (Name ''dPhi_dr'') [Name ''r'', Name ''GM'',
         Name ''a''] []) ''block_until_ready'') [] [])]"

definition code_42 :: "stmt list" where
  "code_42 = []"

definition program :: "(string \<times> stmt list) list" where
  "program =
    [(''1'', code_1), (''3'', code_3), (''4'', code_4), (''5'', code_5), (''6'', code_6),
     (''10'', code_10), (''11'', code_11), (''13'', code_13), (''14'', code_14),
     (''15'', code_15), (''16'', code_16), (''18'', code_18), (''19'', code_19),
     (''21'', code_21), (''22'', code_22), (''24'', code_24), (''25'', code_25),
     (''26'', code_26), (''27'', code_27), (''29'', code_29), (''31'', code_31),
     (''32'', code_32), (''33'', code_33), (''34'', code_34), (''36'', code_36),
     (''37'', code_37), (''38'', code_38), (''39'', code_39), (''40'', code_40),
     (''41'', code_41), (''42'', code_42)]"


section \<open>Names read and names bound\<close>

text \<open>
  The names an expression reads are its free names: a keyword of a call and the attribute of
  an attribute access are not names, and the parameters of a lambda are bound in its body.
\<close>

fun names_read :: "expr \<Rightarrow> string list" where
  "names_read (Name x) = [x]"
| "names_read (Constant c) = []"
| "names_read (Str s) = []"
| "names_read (Attribute e a) = names_read e"
| "names_read (Call f args kws) =
     names_read f @ concat (map names_read args) @ concat (map (\<lambda>kw. names_read (snd kw)) kws)"
| "names_read (BinOp l opr r) = names_read l @ names_read r"
| "names_read (UnaryOp opr e) = names_read e"
| "names_read (Compare l opr r) = names_read l @ names_read r"
| "names_read (Subscript e i) = names_read e @ names_read i"
| "names_read (Tuple es) = concat (map names_read es)"
| "names_read (Dict kvs) = concat (map (\<lambda>kv. names_read (fst kv) @ names_read (snd kv)) kvs)"
| "names_read (Lambda ps e) = filter (\<lambda>n. n \<notin> set ps) (names_read e)"

text \<open>
  An assignment target binds the names it consists of; a target that is an attribute or a
  subscript binds nothing and reads the object it updates.
\<close>

fun target_names :: "expr \<Rightarrow> string list" where
  "target_names (Name x) = [x]"
| "target_names (Tuple es) = concat (map target_names es)"
| "target_names e = []"

fun target_reads :: "expr \<Rightarrow> string list" where
  "target_reads (Name x) = []"
| "target_reads (Tuple es) = concat (map target_reads es)"
| "target_reads e = names_read e"

text \<open>
  The names a statement binds in the scope it runs in.  \<^verbatim>\<open>import a.b\<close> binds \<^verbatim>\<open>a\<close>,
  \<^verbatim>\<open>import a.b as c\<close> binds \<^verbatim>\<open>c\<close>.  The bodies of conditionals and loops run in the same
  scope, a function body does not.  A cell magic runs the cell in the notebook's namespace; a
  line magic (here \<^verbatim>\<open>timeit\<close>) runs its statement in a scope of its own.
\<close>

fun binds :: "stmt \<Rightarrow> string list" where
  "binds (Import m None) = [takeWhile (\<lambda>c. c \<noteq> CHR ''.'') m]"
| "binds (Import m (Some a)) = [a]"
| "binds (Assign t e) = target_names t"
| "binds (AugAssign t opr e) = target_names t"
| "binds (Expr e) = []"
| "binds (Return e) = []"
| "binds (If_stmt c yes no) = concat (map binds yes) @ concat (map binds no)"
| "binds (For t it body) = target_names t @ concat (map binds body)"
| "binds (FunctionDef f decorators ps body) = [f]"
| "binds (LineMagic m args body) = []"
| "binds (CellMagic m args body) = concat (map binds body)"

text \<open>
  The names a statement reads from the scope it runs in.  An augmented assignment reads its
  target.  A function definition reads its decorators and, when the function is called, the
  names of its body that are neither parameters nor bound in the body.
\<close>

fun reads :: "stmt \<Rightarrow> string list" where
  "reads (Import m a) = []"
| "reads (Assign t e) = target_reads t @ names_read e"
| "reads (AugAssign t opr e) = target_names t @ target_reads t @ names_read e"
| "reads (Expr e) = names_read e"
| "reads (Return e) = names_read e"
| "reads (If_stmt c yes no) = names_read c @ concat (map reads yes) @ concat (map reads no)"
| "reads (For t it body) = names_read it @ target_reads t @ concat (map reads body)"
| "reads (FunctionDef f decorators ps body) =
     concat (map names_read decorators) @
     filter (\<lambda>n. n \<notin> set ps \<and> n \<notin> set (concat (map binds body))) (concat (map reads body))"
| "reads (LineMagic m args body) = concat (map reads body)"
| "reads (CellMagic m args body) = concat (map reads body)"

definition cell_reads :: "stmt list \<Rightarrow> string list" where
  "cell_reads c = concat (map reads c)"

definition cell_binds :: "stmt list \<Rightarrow> string list" where
  "cell_binds c = concat (map binds c)"

text \<open>
  The names bound when cell \<open>i\<close> of a program has run: those bound by the cells before it and
  by the cell itself.
\<close>

definition bound_upto :: "(string \<times> stmt list) list \<Rightarrow> nat \<Rightarrow> string list" where
  "bound_upto prog i = concat (map (\<lambda>c. cell_binds (snd c)) (take (Suc i) prog))"

definition bound_anywhere :: "(string \<times> stmt list) list \<Rightarrow> string list" where
  "bound_anywhere prog = concat (map (\<lambda>c. cell_binds (snd c)) prog)"

definition reads_at :: "(string \<times> stmt list) list \<Rightarrow> nat \<Rightarrow> string list" where
  "reads_at prog i = cell_reads (snd (prog ! i))"

text \<open>The one built-in function of Python that the notebook calls.\<close>

definition builtins_used :: "string list" where
  "builtins_used = [''len'']"

text \<open>
  The check, as a program: run through the cells with the names bound so far, and accept a
  cell when every name it reads is allowed, bound before, or bound by the cell.
\<close>

fun flow_ok :: "string list \<Rightarrow> string list \<Rightarrow> (string \<times> stmt list) list \<Rightarrow> bool" where
  "flow_ok allowed env [] = True"
| "flow_ok allowed env (c # cs) =
     (let env' = env @ cell_binds (snd c) in
      list_all (\<lambda>n. n \<in> set allowed \<or> n \<in> set env') (cell_reads (snd c)) \<and> flow_ok allowed env' cs)"


section \<open>Running a cell: where an error goes\<close>


type_synonym result = "string list \<times> string option"










section \<open>Properties of the notebook document\<close>

lemmas cell_defs = cell_0_def cell_1_def cell_2_def cell_3_def cell_4_def cell_5_def cell_6_def
  cell_7_def cell_8_def cell_9_def cell_10_def cell_11_def cell_12_def cell_13_def cell_14_def
  cell_15_def cell_16_def cell_17_def cell_18_def cell_19_def cell_20_def cell_21_def cell_22_def
  cell_23_def cell_24_def cell_25_def cell_26_def cell_27_def cell_28_def cell_29_def cell_30_def
  cell_31_def cell_32_def cell_33_def cell_34_def cell_35_def cell_36_def cell_37_def cell_38_def
  cell_39_def cell_40_def cell_41_def cell_42_def

lemma nb_cells_notebook:
  "nb_cells notebook =
    [cell_0, cell_1, cell_2, cell_3, cell_4, cell_5, cell_6, cell_7, cell_8, cell_9,
     cell_10, cell_11, cell_12, cell_13, cell_14, cell_15, cell_16, cell_17, cell_18,
     cell_19, cell_20, cell_21, cell_22, cell_23, cell_24, cell_25, cell_26, cell_27,
     cell_28, cell_29, cell_30, cell_31, cell_32, cell_33, cell_34, cell_35, cell_36,
     cell_37, cell_38, cell_39, cell_40, cell_41, cell_42]"
  by (simp add: nb_cells_def notebook_def)

lemma code_cells_notebook:
  "code_cells notebook =
    [cell_1, cell_3, cell_4, cell_5, cell_6, cell_10, cell_11, cell_13, cell_14, cell_15,
     cell_16, cell_18, cell_19, cell_21, cell_22, cell_24, cell_25, cell_26, cell_27,
     cell_29, cell_31, cell_32, cell_33, cell_34, cell_36, cell_37, cell_38, cell_39,
     cell_40, cell_41, cell_42]"
  unfolding code_cells_def nb_cells_notebook
  by (simp add: is_code_def cell_defs)

lemma markdown_cells_notebook:
  "markdown_cells notebook =
    [cell_0, cell_2, cell_7, cell_8, cell_9, cell_12, cell_17, cell_20, cell_23, cell_28,
     cell_30, cell_35]"
  unfolding markdown_cells_def nb_cells_notebook
  by (simp add: is_markdown_def cell_defs)

lemma list_all_is_str_JStr: "list_all (\<lambda>x. is_str (Some x)) (map JStr ls)"
  by (induction ls) simp_all

text \<open>
  C3.  The notebook is a JSON document whose top level has a cell list, a metadata object and
  a format version; every cell carries a type tag that is markdown or code, an identifier and
  source lines, and every code cell also carries an outputs field and an execution counter.
\<close>

theorem notebook_document_shape:
  "is_arr (field ''cells'' notebook) \<and>
   is_obj (field ''metadata'' notebook) \<and>
   is_number (field ''nbformat'' notebook) \<and>
   is_number (field ''nbformat_minor'' notebook) \<and>
   (\<forall>c \<in> set (nb_cells notebook). well_formed_cell c)"
  unfolding nb_cells_notebook
  by (simp add: notebook_def notebook_metadata_def well_formed_cell_def is_code_def
      is_markdown_def list_all_is_str_JStr cell_defs)

theorem notebook_document_shape_witness:
  "cell_1 \<in> set (nb_cells notebook) \<and> is_code cell_1 \<and>
   is_arr (field ''outputs'' cell_1) \<and> is_counter (field ''execution_count'' cell_1)"
proof -
  have mem: "cell_1 \<in> set (nb_cells notebook)"
    unfolding nb_cells_notebook by simp
  have code: "is_code cell_1"
    by (simp add: is_code_def cell_1_def)
  from notebook_document_shape mem have "well_formed_cell cell_1"
    by blast
  with code mem show ?thesis
    by (simp add: well_formed_cell_def)
qed

lemma cell_ids_notebook: "cell_ids notebook = map (\<lambda>n. Some (dec n)) [0..<43]"
  unfolding cell_ids_def nb_cells_notebook
  apply (simp add: cell_defs)
  apply code_simp
  done

lemma cell_numbers_notebook: "cell_numbers notebook = map Some [0..<43]"
  unfolding cell_numbers_def cell_ids_notebook
  by code_simp

text \<open>
  C10.  The cell identifiers are pairwise distinct, and in document order they are exactly the
  decimal strings 0 to 42, so their numeric values increase strictly.
\<close>

theorem cell_ids_are_0_to_42:
  "cell_ids notebook = map (\<lambda>n. Some (dec n)) [0..<43] \<and>
   distinct (cell_ids notebook) \<and>
   cell_numbers notebook = map Some [0..<43] \<and>
   sorted_wrt (<) (map the (cell_numbers notebook))"
proof (intro conjI)
  show "cell_ids notebook = map (\<lambda>n. Some (dec n)) [0..<43]"
    by (rule cell_ids_notebook)
  show nums: "cell_numbers notebook = map Some [0..<43]"
    by (rule cell_numbers_notebook)
  have "distinct (cell_numbers notebook)"
    unfolding nums by (simp add: distinct_map)
  then show "distinct (cell_ids notebook)"
    unfolding cell_numbers_def by (simp add: distinct_map)
  have "map the (cell_numbers notebook) = [0..<43]"
    unfolding nums by (simp add: comp_def)
  then show "sorted_wrt (<) (map the (cell_numbers notebook))"
    by (simp only: sorted_wrt_upt)
qed

lemma map_str_of_JStr: "map (str_of \<circ> JStr) ls = ls"
  by (induction ls) simp_all

lemma source_lines_markdown:
  "source_lines cell_0 = source_0" "source_lines cell_2 = source_2"
  "source_lines cell_7 = source_7" "source_lines cell_8 = source_8"
  "source_lines cell_9 = source_9" "source_lines cell_12 = source_12"
  "source_lines cell_17 = source_17" "source_lines cell_20 = source_20"
  "source_lines cell_23 = source_23" "source_lines cell_28 = source_28"
  "source_lines cell_30 = source_30" "source_lines cell_35 = source_35"
  by (simp_all add: source_lines_def map_str_of_JStr cell_defs)


lemma headings_notebook:
  "headings notebook =
    [(1, ''Intro to JAX''),
     (2, ''JIT Compilation''),
     (3, ''Example: Computing the gravitational potential of a set of particles''),
     (2, ''Vectorization with `vmap`''),
     (3, ''Example: Find the depth of an absorption line in a set of spectra''),
     (2, ''Automatic Differentiation''),
     (3, ''Example: Evaluating the gradient of a function''),
     (2, ''Pytrees''),
     (3, ''Example: Computing the gradient of a function with respect to a set of parameters''),
     (3, ''Example: Using `vmap` over a pytree of parameters''),
     (1, ''Sharp Bits''),
     (2, ''Control flow''),
     (1, ''Teaser: Using physical units in JAX code'')]"
  unfolding headings_def markdown_cells_notebook
  apply (simp only: list.map source_lines_markdown)
  apply code_simp
  done

text \<open>
  C6.  The headings of the six topics (JIT compilation, vectorization with vmap, automatic
  differentiation, pytrees, control flow, the units teaser) each occur once in the document,
  in exactly this order.
\<close>

theorem topics_in_narrative_order:
  "filter (\<lambda>h. h \<in> set topic_headings) (headings notebook) = topic_headings \<and>
   distinct topic_headings"
  unfolding headings_notebook
  by (simp add: topic_headings_def)



section \<open>What the notebook says about its own execution\<close>

text \<open>
  Whether a cell raises when it runs is decided by the external libraries and is not modelled.
  The document itself records one outcome: the markdown cell that follows code cell 19 asks
  why that cell raised an error.
\<close>

lemma question_in_cell_20: "list_ex (contains ''Why did this error?'') source_20"
  by code_simp

lemma error_documented_after_cell_19:
  "take 2 (drop 19 (nb_cells notebook)) = [cell_19, cell_20] \<and>
   is_code cell_19 \<and> is_markdown cell_20 \<and>
   list_ex (contains ''Why did this error?'') (source_lines cell_20)"
  unfolding nb_cells_notebook source_lines_markdown
  using question_in_cell_20
  by (simp add: is_code_def is_markdown_def cell_19_def cell_20_def)

section \<open>Properties of the hygiene configuration\<close>

lemmas repo_defs = repo_pre_commit_hooks_def repo_prettier_def repo_ruff_def repo_shellcheck_def
  repo_validate_pyproject_def repo_nbstripout_def

lemma repos_config:
  "repos config = [repo_pre_commit_hooks, repo_prettier, repo_ruff, repo_shellcheck,
                   repo_validate_pyproject, repo_nbstripout]"
  by (simp add: repos_def config_def)

lemma repo_hooks:
  "elems (field ''hooks'' repo_prettier) = [hook_prettier]"
  "elems (field ''hooks'' repo_shellcheck) = [hook_shellcheck]"
  by (simp_all add: repo_defs)

lemma repo_revisions:
  "names_revision repo_pre_commit_hooks" "names_revision repo_prettier"
  "names_revision repo_ruff" "names_revision repo_shellcheck"
  "names_revision repo_validate_pyproject" "names_revision repo_nbstripout"
  by (simp_all add: names_revision_def repo_defs)

lemma hook_decls_config:
  "hook_decls config =
     map (Pair repo_pre_commit_hooks) (elems (field ''hooks'' repo_pre_commit_hooks)) @
     [(repo_prettier, hook_prettier)] @
     map (Pair repo_ruff) (elems (field ''hooks'' repo_ruff)) @
     [(repo_shellcheck, hook_shellcheck)] @
     map (Pair repo_validate_pyproject) (elems (field ''hooks'' repo_validate_pyproject)) @
     map (Pair repo_nbstripout) (elems (field ''hooks'' repo_nbstripout))"
  unfolding hook_decls_def repos_config
  by (simp add: repo_hooks)

lemma hooks_checked:
  "\<forall>h \<in> set (elems (field ''hooks'' repo_pre_commit_hooks) @ [hook_prettier] @
       elems (field ''hooks'' repo_ruff) @ [hook_shellcheck] @
       elems (field ''hooks'' repo_validate_pyproject) @ elems (field ''hooks'' repo_nbstripout)).
     is_str (field ''id'' h) \<and>
     (has_filter h \<longleftrightarrow> hook_id h \<in> set filtered_hook_ids) \<and>
     (has_filter h \<longrightarrow> is_str_list (field ''types_or'' h))"
  by code_simp

text \<open>
  C4 as stated fails: the shellcheck hook is declared with an identifier only, without any
  key that restricts the files it applies to.
\<close>

theorem shellcheck_hook_unfiltered:
  "(repo_shellcheck, hook_shellcheck) \<in> set (hook_decls config) \<and> \<not> has_filter hook_shellcheck"
  unfolding hook_decls_config
  by (simp add: has_filter_def filter_keys_def hook_shellcheck_def)

text \<open>
  C4, amended.  Each of the sixteen hook declarations names its hook identifier and stands in
  a repository entry that names the revision of the external tool.  A file filter is optional:
  the prettier, ruff and ruff-format hooks declare one, a \<^verbatim>\<open>types_or\<close> list, and the other
  thirteen hooks declare none.
\<close>

theorem hook_declarations:
  "length (hook_decls config) = 16 \<and>
   (\<forall>(r, h) \<in> set (hook_decls config).
      names_revision r \<and>
      is_str (field ''id'' h) \<and>
      (has_filter h \<longleftrightarrow> hook_id h \<in> set filtered_hook_ids) \<and>
      (has_filter h \<longrightarrow> is_str_list (field ''types_or'' h)))"
proof
  show "length (hook_decls config) = 16"
    unfolding hook_decls_config by (simp add: repo_defs)
  show "\<forall>(r, h) \<in> set (hook_decls config).
      names_revision r \<and>
      is_str (field ''id'' h) \<and>
      (has_filter h \<longleftrightarrow> hook_id h \<in> set filtered_hook_ids) \<and>
      (has_filter h \<longrightarrow> is_str_list (field ''types_or'' h))"
  proof -
    have revs: "\<forall>(r, h) \<in> set (hook_decls config). names_revision r"
      unfolding hook_decls_config
      by (simp add: ball_Un repo_revisions)
    have hooks: "\<forall>(r, h) \<in> set (hook_decls config).
        is_str (field ''id'' h) \<and>
        (has_filter h \<longleftrightarrow> hook_id h \<in> set filtered_hook_ids) \<and>
        (has_filter h \<longrightarrow> is_str_list (field ''types_or'' h))"
      using hooks_checked
      unfolding hook_decls_config
      by (simp add: ball_Un)
    from revs hooks show ?thesis
      by blast
  qed
qed

theorem hook_declarations_witness:
  "(repo_prettier, hook_prettier) \<in> set (hook_decls config) \<and>
   names_revision repo_prettier \<and>
   has_filter hook_prettier \<and>
   hook_id hook_prettier = ''prettier'' \<and>
   is_str_list (field ''types_or'' hook_prettier)"
proof -
  have mem: "(repo_prettier, hook_prettier) \<in> set (hook_decls config)"
    unfolding hook_decls_config by simp
  have filt: "has_filter hook_prettier"
    by (simp add: has_filter_def filter_keys_def hook_prettier_def)
  have ident: "hook_id hook_prettier = ''prettier''"
    by (simp add: hook_id_def hook_prettier_def)
  from hook_declarations mem
  have "names_revision repo_prettier \<and>
     (has_filter hook_prettier \<longrightarrow> is_str_list (field ''types_or'' hook_prettier))"
    by blast
  with mem filt ident show ?thesis
    by simp
qed

section \<open>Properties of the exclude pattern\<close>

lemma parse_exclude: "parse_regex (exclude_pattern config) = Some [cruft_alternative, copier_alternative]"
  by (simp add: exclude_pattern_def config_def parse_regex_def atom_of_def unsupported_chars_def
      cruft_alternative_def copier_alternative_def)

lemma match_here_Dot: "match_here (Dot # as) b s \<longleftrightarrow> (\<exists>c cs. s = c # cs \<and> c \<noteq> 10 \<and> match_here as False cs)"
  by (cases s) auto

lemma match_here_Lit: "match_here (Lit l # as) b s \<longleftrightarrow> (\<exists>cs. s = of_char l # cs \<and> match_here as False cs)"
  by (cases s) auto

lemma search_from_iff:
  "search_from alts b s \<longleftrightarrow>
     (\<exists>a \<in> set alts. match_here a b s) \<or>
     (\<exists>pre suf. pre \<noteq> [] \<and> s = pre @ suf \<and> (\<exists>a \<in> set alts. match_here a False suf))"
proof (induction s arbitrary: b)
  case Nil
  then show ?case by (auto simp: list_ex_iff)
next
  case (Cons c cs)
  show ?case
  proof
    assume "search_from alts b (c # cs)"
    then consider "\<exists>a \<in> set alts. match_here a b (c # cs)" | "search_from alts False cs"
      by (auto simp: list_ex_iff)
    then show "(\<exists>a \<in> set alts. match_here a b (c # cs)) \<or>
      (\<exists>pre suf. pre \<noteq> [] \<and> c # cs = pre @ suf \<and> (\<exists>a \<in> set alts. match_here a False suf))"
    proof cases
      case 1 then show ?thesis by blast
    next
      case 2
      then have "(\<exists>a \<in> set alts. match_here a False cs) \<or>
        (\<exists>pre suf. pre \<noteq> [] \<and> cs = pre @ suf \<and> (\<exists>a \<in> set alts. match_here a False suf))"
        using Cons.IH by blast
      then show ?thesis
      proof
        assume "\<exists>a \<in> set alts. match_here a False cs"
        then have "[c] \<noteq> [] \<and> c # cs = [c] @ cs \<and> (\<exists>a \<in> set alts. match_here a False cs)" by simp
        then show ?thesis by blast
      next
        assume "\<exists>pre suf. pre \<noteq> [] \<and> cs = pre @ suf \<and> (\<exists>a \<in> set alts. match_here a False suf)"
        then obtain pre suf where "pre \<noteq> []" "cs = pre @ suf" "\<exists>a \<in> set alts. match_here a False suf" by blast
        then have "c # pre \<noteq> [] \<and> c # cs = (c # pre) @ suf \<and> (\<exists>a \<in> set alts. match_here a False suf)" by simp
        then show ?thesis by blast
      qed
    qed
  next
    assume r: "(\<exists>a \<in> set alts. match_here a b (c # cs)) \<or>
      (\<exists>pre suf. pre \<noteq> [] \<and> c # cs = pre @ suf \<and> (\<exists>a \<in> set alts. match_here a False suf))"
    then show "search_from alts b (c # cs)"
    proof
      assume "\<exists>a \<in> set alts. match_here a b (c # cs)"
      then show ?thesis by (auto simp: list_ex_iff)
    next
      assume "\<exists>pre suf. pre \<noteq> [] \<and> c # cs = pre @ suf \<and> (\<exists>a \<in> set alts. match_here a False suf)"
      then obtain pre suf where p: "pre \<noteq> []" "c # cs = pre @ suf" "\<exists>a \<in> set alts. match_here a False suf" by blast
      then obtain pre' where pre: "pre = c # pre'" by (cases pre) auto
      with p have cs: "cs = pre' @ suf" by simp
      have "search_from alts False cs"
      proof (cases "pre' = []")
        case True
        with cs p(3) show ?thesis using Cons.IH [of False] by auto
      next
        case False
        with cs p(3) show ?thesis using Cons.IH [of False] by blast
      qed
      then show ?thesis by simp
    qed
  qed
qed

lemma match_cruft:
  "match_here cruft_alternative b s \<longleftrightarrow>
     b \<and> (\<exists>c1 c2 rest. c1 \<noteq> 10 \<and> c2 \<noteq> 10 \<and> s = c1 # cps ''cruft'' @ c2 # cps ''json'' @ rest)"
  by (auto simp add: cruft_alternative_def cps_def match_here_Dot match_here_Lit)

lemma match_copier:
  "match_here copier_alternative b s \<longleftrightarrow>
     (\<exists>c1 c2 e. c1 \<noteq> 10 \<and> c2 \<noteq> 10 \<and> (e = [] \<or> e = [10]) \<and>
        s = c1 # cps ''copier-answers'' @ c2 # cps ''yml'' @ e)"
  by (auto simp add: copier_alternative_def cps_def match_here_Dot match_here_Lit)


lemma excluded_config:
  "excluded config p \<longleftrightarrow> search_from [cruft_alternative, copier_alternative] True p"
  by (simp add: excluded_def re_search_def parse_exclude)

lemma excluded_iff:
  "excluded config p \<longleftrightarrow>
     (\<exists>c1 c2 rest. c1 \<noteq> 10 \<and> c2 \<noteq> 10 \<and> p = c1 # cps ''cruft'' @ c2 # cps ''json'' @ rest) \<or>
     (\<exists>pre c1 c2 e. c1 \<noteq> 10 \<and> c2 \<noteq> 10 \<and> (e = [] \<or> e = [10]) \<and>
        p = pre @ c1 # cps ''copier-answers'' @ c2 # cps ''yml'' @ e)"
  (is "?L \<longleftrightarrow> ?A \<or> ?B")
proof
  assume ?L
  then consider
      (start) a where "a \<in> {cruft_alternative, copier_alternative}" "match_here a True p"
    | (later) pre suf a where "pre \<noteq> []" "p = pre @ suf"
        "a \<in> {cruft_alternative, copier_alternative}" "match_here a False suf"
    unfolding excluded_config search_from_iff by auto
  then show "?A \<or> ?B"
  proof cases
    case start
    from start(1) consider "a = cruft_alternative" | "a = copier_alternative"
      by blast
    then show ?thesis
    proof cases
      case 1
      with start(2) have ?A
        by (simp add: match_cruft)
      then show ?thesis ..
    next
      case 2
      with start(2) have "\<exists>c1 c2 e. c1 \<noteq> 10 \<and> c2 \<noteq> 10 \<and> (e = [] \<or> e = [10]) \<and>
          p = c1 # cps ''copier-answers'' @ c2 # cps ''yml'' @ e"
        by (simp add: match_copier)
      then obtain c1 c2 e where "c1 \<noteq> 10" "c2 \<noteq> 10" "e = [] \<or> e = [10]"
        "p = c1 # cps ''copier-answers'' @ c2 # cps ''yml'' @ e"
        by blast
      then have "c1 \<noteq> 10 \<and> c2 \<noteq> 10 \<and> (e = [] \<or> e = [10]) \<and>
          p = [] @ c1 # cps ''copier-answers'' @ c2 # cps ''yml'' @ e"
        by simp
      then have ?B
        by blast
      then show ?thesis ..
    qed
  next
    case later
    from later(3) consider "a = cruft_alternative" | "a = copier_alternative"
      by blast
    then show ?thesis
    proof cases
      case 1
      with later(4) show ?thesis
        by (simp add: match_cruft)
    next
      case 2
      with later(4) have "\<exists>c1 c2 e. c1 \<noteq> 10 \<and> c2 \<noteq> 10 \<and> (e = [] \<or> e = [10]) \<and>
          suf = c1 # cps ''copier-answers'' @ c2 # cps ''yml'' @ e"
        by (simp add: match_copier)
      then obtain c1 c2 e where "c1 \<noteq> 10" "c2 \<noteq> 10" "e = [] \<or> e = [10]"
        "suf = c1 # cps ''copier-answers'' @ c2 # cps ''yml'' @ e"
        by blast
      with later(2) have ?B
        by blast
      then show ?thesis ..
    qed
  qed
next
  assume "?A \<or> ?B"
  then show ?L
  proof
    assume ?A
    then have "match_here cruft_alternative True p"
      by (simp add: match_cruft)
    then show ?L
      unfolding excluded_config search_from_iff by auto
  next
    assume ?B
    then obtain pre c1 c2 e where e: "c1 \<noteq> 10" "c2 \<noteq> 10" "e = [] \<or> e = [10]"
      and p: "p = pre @ c1 # cps ''copier-answers'' @ c2 # cps ''yml'' @ e"
      by blast
    let ?suf = "c1 # cps ''copier-answers'' @ c2 # cps ''yml'' @ e"
    from e have m: "match_here copier_alternative b ?suf" for b
      unfolding match_copier by blast
    show ?L
    proof (cases "pre = []")
      case True
      with p m [of True] show ?thesis
        unfolding excluded_config search_from_iff by auto
    next
      case False
      with p m [of False] show ?thesis
        unfolding excluded_config search_from_iff by auto
    qed
  qed
qed

text \<open>
  C9 as stated fails where it says that each dot matches any character: the path that consists
  of a line feed, \<^verbatim>\<open>cruft\<close>, a full stop and \<^verbatim>\<open>json\<close> starts with a character followed by
  \<^verbatim>\<open>cruft\<close>, a character and \<^verbatim>\<open>json\<close>, and the pattern does not match it.
\<close>

theorem exclude_misses_line_feed:
  "\<not> excluded config (10 # cps ''cruft'' @ of_char (CHR ''.'') # cps ''json'')"
  unfolding excluded_config
  by (simp add: cps_def cruft_alternative_def copier_alternative_def)

text \<open>
  C9, amended.  The exclude pattern is an alternation of two sequences; the start anchor
  belongs to the first only and the end anchor to the second only.  It matches exactly the
  paths that start with a character other than a line feed, \<^verbatim>\<open>cruft\<close>, a character other than
  a line feed and \<^verbatim>\<open>json\<close>, whatever follows, and the paths that end with a character other
  than a line feed, \<^verbatim>\<open>copier-answers\<close>, a character other than a line feed and \<^verbatim>\<open>yml\<close>,
  where one final line feed may follow.  So it is not the same as matching the two file names
  literally: it accepts other names and, below a directory, rejects the first of the two.
\<close>

theorem exclude_pattern_meaning:
  "parse_regex (exclude_pattern config) = Some [cruft_alternative, copier_alternative] \<and>
   (excluded config p \<longleftrightarrow>
     (\<exists>c1 c2 rest. c1 \<noteq> 10 \<and> c2 \<noteq> 10 \<and> p = c1 # cps ''cruft'' @ c2 # cps ''json'' @ rest) \<or>
     (\<exists>pre c1 c2 e. c1 \<noteq> 10 \<and> c2 \<noteq> 10 \<and> (e = [] \<or> e = [10]) \<and>
        p = pre @ c1 # cps ''copier-answers'' @ c2 # cps ''yml'' @ e)) \<and>
   excluded config (cps ''.cruft.json'') \<and>
   excluded config (cps ''.copier-answers.yml'') \<and>
   excluded config (cps ''xcruftyjsonz'') \<and>
   excluded config (cps ''dir/a-copier-answers-yml'') \<and>
   \<not> excluded config (cps ''dir/.cruft.json'') \<and>
   \<not> excluded config (cps ''.copier-answers.yml.bak'')"
proof -
  have "excluded config (cps ''.cruft.json'')" "excluded config (cps ''.copier-answers.yml'')"
    "excluded config (cps ''xcruftyjsonz'')" "excluded config (cps ''dir/a-copier-answers-yml'')"
    "\<not> excluded config (cps ''dir/.cruft.json'')"
    "\<not> excluded config (cps ''.copier-answers.yml.bak'')"
    unfolding excluded_config
    by (simp_all add: cps_def cruft_alternative_def copier_alternative_def)
  with parse_exclude excluded_iff [of p] show ?thesis
    by blast
qed

theorem exclude_pattern_meaning_witness:
  "excluded config (cps ''dir/.copier-answers.yml'' @ [10])"
proof -
  have "cps ''dir/.copier-answers.yml'' @ [10] =
      cps ''dir/'' @ of_char (CHR ''.'') # cps ''copier-answers'' @ of_char (CHR ''.'') # cps ''yml'' @ [10]"
    by (simp add: cps_def)
  moreover have "(of_char (CHR ''.'') :: nat) \<noteq> 10"
    by simp
  ultimately show ?thesis
    using exclude_pattern_meaning [of "cps ''dir/.copier-answers.yml'' @ [10]"]
    by blast
qed

section \<open>Stripped storage\<close>

lemma nbstripout_declared:
  "(repo_nbstripout, JObj [(''id'', JStr ''nbstripout'')]) \<in> set (hook_decls config)"
  unfolding hook_decls_config
  by (simp add: repo_nbstripout_def)

text \<open>
  C8.  Every code cell is stored in stripped state, its outputs the empty list and its
  execution counter null; the configuration declares the nbstripout hook, which puts
  notebooks into that state before a commit.
\<close>

theorem code_cells_stripped:
  "(\<forall>c \<in> set (code_cells notebook).
      field ''outputs'' c = Some (JArr []) \<and> field ''execution_count'' c = Some JNull) \<and>
   (repo_nbstripout, JObj [(''id'', JStr ''nbstripout'')]) \<in> set (hook_decls config)"
proof
  show "\<forall>c \<in> set (code_cells notebook).
      field ''outputs'' c = Some (JArr []) \<and> field ''execution_count'' c = Some JNull"
    unfolding code_cells_notebook
    by (simp add: cell_defs)
  show "(repo_nbstripout, JObj [(''id'', JStr ''nbstripout'')]) \<in> set (hook_decls config)"
    by (rule nbstripout_declared)
qed

theorem code_cells_stripped_witness:
  "cell_1 \<in> set (code_cells notebook) \<and>
   field ''outputs'' cell_1 = Some (JArr []) \<and> field ''execution_count'' cell_1 = Some JNull"
proof -
  have mem: "cell_1 \<in> set (code_cells notebook)"
    unfolding code_cells_notebook by simp
  with code_cells_stripped show ?thesis
    by blast
qed

section \<open>Data flow between the cells\<close>

lemma flow_ok_sound:
  "flow_ok allowed env cs \<Longrightarrow> i < length cs \<Longrightarrow> n \<in> set (cell_reads (snd (cs ! i))) \<Longrightarrow>
   n \<in> set allowed \<or> n \<in> set env \<or> n \<in> set (bound_upto cs i)"
proof (induction cs arbitrary: env i)
  case Nil
  then show ?case by simp
next
  case (Cons c cs)
  let ?env = "env @ cell_binds (snd c)"
  from Cons.prems(1) have here: "\<forall>n \<in> set (cell_reads (snd c)). n \<in> set allowed \<or> n \<in> set ?env"
    and rest: "flow_ok allowed ?env cs"
    by (simp_all add: Let_def list_all_iff)
  show ?case
  proof (cases i)
    case 0
    with Cons.prems(3) here show ?thesis
      by (auto simp add: bound_upto_def)
  next
    case (Suc j)
    with Cons.prems have "j < length cs" and "n \<in> set (cell_reads (snd (cs ! j)))"
      by simp_all
    with rest have "n \<in> set allowed \<or> n \<in> set ?env \<or> n \<in> set (bound_upto cs j)"
      by (rule Cons.IH)
    with Suc show ?thesis
      by (auto simp add: bound_upto_def)
  qed
qed

lemma program_covers_code_cells:
  "map (\<lambda>c. Some (fst c)) program = map cell_id (code_cells notebook)"
  unfolding code_cells_notebook
  by (simp add: program_def cell_defs)

lemma program_flow_ok: "flow_ok builtins_used [] program"
  by code_simp

lemma len_never_bound: "''len'' \<notin> set (bound_anywhere program)"
  by code_simp

text \<open>
  C5 as stated fails: cell 25 (the seventeenth code cell) calls \<^verbatim>\<open>len\<close>, a name that no
  cell of the notebook binds.
\<close>

theorem len_read_but_unbound:
  "fst (program ! 16) = ''25'' \<and>
   ''len'' \<in> set (reads_at program 16) \<and>
   ''len'' \<notin> set (bound_upto program 16)"
  by code_simp

text \<open>
  C5, amended.  Every name a code cell reads is the built-in \<^verbatim>\<open>len\<close>, or is bound by the
  cell itself or by a cell before it; and no cell reads a name that is first bound by a later
  cell.
\<close>

theorem names_bound_before_read:
  "(\<forall>i < length program. \<forall>n \<in> set (reads_at program i).
      n \<in> set builtins_used \<or> n \<in> set (bound_upto program i)) \<and>
   (\<forall>i < length program. \<forall>n \<in> set (reads_at program i).
      n \<in> set (bound_anywhere program) \<longrightarrow> n \<in> set (bound_upto program i))"
proof -
  have first: "n \<in> set builtins_used \<or> n \<in> set (bound_upto program i)"
    if "i < length program" and "n \<in> set (reads_at program i)" for i n
    using flow_ok_sound [OF program_flow_ok, of i n] that
    by (simp add: reads_at_def)
  have second: "n \<in> set (bound_upto program i)"
    if "i < length program" and "n \<in> set (reads_at program i)"
      and "n \<in> set (bound_anywhere program)" for i n
  proof -
    from that(3) len_never_bound have "n \<notin> set builtins_used"
      by (auto simp add: builtins_used_def)
    with first [OF that(1,2)] show ?thesis
      by simp
  qed
  from first second show ?thesis
    by blast
qed

theorem names_bound_before_read_witness:
  "9 < length program \<and> fst (program ! 9) = ''15'' \<and>
   ''find_depth_vmap'' \<in> set (reads_at program 9) \<and>
   ''find_depth_vmap'' \<in> set (bound_anywhere program) \<and>
   ''find_depth_vmap'' \<in> set (bound_upto program 9)"
proof -
  have a: "9 < length program" "fst (program ! 9) = ''15''"
    by (simp_all add: program_def)
  have b: "''find_depth_vmap'' \<in> set (reads_at program 9)"
    by code_simp
  have c: "''find_depth_vmap'' \<in> set (bound_anywhere program)"
    by code_simp
  from names_bound_before_read a(1) b c
  have "''find_depth_vmap'' \<in> set (bound_upto program 9)"
    by blast
  with a b c show ?thesis
    by simp
qed

section \<open>Errors on their way to the caller\<close>












end
